theory Spec2Isabelle
  imports Main "HOL-Library.Code_Target_Numeral"
begin

section \<open>JavaScript numbers\<close>

text \<open>
  A JavaScript Number is an IEEE 754 binary64 value. \<open>Finite neg m e\<close> stands for
  \<open>(-1)^neg * m * 2^e\<close> in canonical form: \<open>m < 2^53\<close>, \<open>-1074 \<le> e \<le> 971\<close>, and
  \<open>m < 2^52\<close> only at \<open>e = -1074\<close> (zero and the subnormal numbers). Both zeros
  exist: \<open>Finite False 0 (-1074)\<close> and \<open>Finite True 0 (-1074)\<close>.
\<close>

datatype number = NaN | Infinity bool | Finite bool nat int

fun bitlen :: "nat \<Rightarrow> nat" where
  "bitlen n = (if n = 0 then 0 else Suc (bitlen (n div 2)))"

declare bitlen.simps [simp del]

definition round_half_even :: "nat \<Rightarrow> nat \<Rightarrow> nat" where
  \<comment> \<open>the integer nearest to \<open>p / q\<close>, a tie going to the even neighbour\<close>
  "round_half_even p q =
     (let d = p div q; r = p mod q
      in if 2 * r < q then d
         else if q < 2 * r then d + 1
         else if even d then d else d + 1)"

definition scale2 :: "nat \<Rightarrow> nat \<Rightarrow> int \<Rightarrow> nat \<times> nat" where
  \<comment> \<open>the fraction \<open>(p / q) / 2^e\<close>\<close>
  "scale2 p q e = (if e < 0 then (p * 2 ^ nat (- e), q) else (p, q * 2 ^ nat e))"

definition round_to_double :: "bool \<Rightarrow> nat \<Rightarrow> nat \<Rightarrow> number" where
  \<comment> \<open>the Number value for the exact fraction \<open>p / q\<close> (\<open>q > 0\<close>) with sign \<open>neg\<close>:
      round to nearest, ties to even, overflow to infinity\<close>
  "round_to_double neg p q =
     (if p = 0 then Finite neg 0 (- 1074)
      else
        let e0 = int (bitlen p) - int (bitlen q) - 53;
            e1 = (case scale2 p q e0 of (a, b) \<Rightarrow> if a < 2 ^ 53 * b then e0 else e0 + 1);
            e = max e1 (- 1074);
            m = (case scale2 p q e of (a, b) \<Rightarrow> round_half_even a b)
        in if m = 2 ^ 53
           then (if e + 1 > 971 then Infinity neg else Finite neg (2 ^ 52) (e + 1))
           else (if e > 971 then Infinity neg else Finite neg m e))"

section \<open>parseFloat\<close>

text \<open>
  Strings are lists of 8-bit code units. \<open>parseFloat\<close>, applied to a string, skips
  leading white space, reads the longest prefix that is a \<open>StrDecimalLiteral\<close> (an
  optional sign, then \<open>Infinity\<close> or decimal digits with an optional fraction and an
  optional exponent) and rounds its value to a Number; without such a prefix the result
  is \<open>NaN\<close>.
\<close>

definition is_white_space :: "char \<Rightarrow> bool" where
  "is_white_space c = (of_char c \<in> {9, 10, 11, 12, 13, 32, 160 :: nat})"

definition is_digit :: "char \<Rightarrow> bool" where
  "is_digit c = (48 \<le> (of_char c :: nat) \<and> (of_char c :: nat) \<le> 57)"

definition digit_val :: "char \<Rightarrow> nat" where
  "digit_val c = of_char c - 48"

definition digits_val :: "string \<Rightarrow> nat" where
  "digits_val ds = foldl (\<lambda>n c. 10 * n + digit_val c) 0 ds"

definition parse_exponent :: "string \<Rightarrow> int" where
  \<comment> \<open>the value of an \<open>ExponentPart\<close> at the head of the string, 0 when there is none\<close>
  "parse_exponent r =
     (case r of
        [] \<Rightarrow> 0
      | c # r1 \<Rightarrow>
          if c = CHR ''e'' \<or> c = CHR ''E'' then
            (case r1 of
               [] \<Rightarrow> 0
             | s # r2 \<Rightarrow>
                 if s = CHR ''-'' then
                   (if takeWhile is_digit r2 = [] then 0
                    else - int (digits_val (takeWhile is_digit r2)))
                 else if s = CHR ''+'' then int (digits_val (takeWhile is_digit r2))
                 else int (digits_val (takeWhile is_digit r1)))
          else 0)"

definition parse_unsigned :: "bool \<Rightarrow> string \<Rightarrow> number" where
  "parse_unsigned neg r =
     (if take 8 r = ''Infinity'' then Infinity neg
      else
        let ip = takeWhile is_digit r;
            r1 = dropWhile is_digit r;
            fp = (case r1 of [] \<Rightarrow> [] | c # r2 \<Rightarrow>
                    if c = CHR ''.'' then takeWhile is_digit r2 else []);
            r3 = (case r1 of [] \<Rightarrow> [] | c # r2 \<Rightarrow>
                    if c = CHR ''.'' then dropWhile is_digit r2 else r1)
        in if ip = [] \<and> fp = [] then NaN
           else
             let x = parse_exponent r3 - int (length fp);
                 d = digits_val (ip @ fp)
             in if x < 0 then round_to_double neg d (10 ^ nat (- x))
                else round_to_double neg (d * 10 ^ nat x) 1)"

definition parseFloat :: "string \<Rightarrow> number" where
  "parseFloat s =
     (case dropWhile is_white_space s of
        [] \<Rightarrow> NaN
      | c # r \<Rightarrow>
          if c = CHR ''-'' then parse_unsigned True r
          else if c = CHR ''+'' then parse_unsigned False r
          else parse_unsigned False (c # r))"

section \<open>Number to string\<close>

text \<open>
  \<open>Number::toString\<close> in radix 10 prints the shortest decimal digit string \<open>s\<close> (of
  \<open>k\<close> digits, scaled by \<open>10^(n - k)\<close>) that rounds back to the same Number, the
  candidate nearest to the exact value when several exist, in positional notation for
  \<open>-6 < n \<le> 21\<close> and in exponent notation otherwise. For each digit count the two
  decimal neighbours of the value are tried, the nearer one first; the upper neighbour
  of a value just below a power of ten is that power of ten. The search runs over 1 to
  17 digits, which are enough for every binary64 value in canonical form.
\<close>

definition digit_char :: "nat \<Rightarrow> char" where
  "digit_char d = char_of (48 + d)"

fun decimal :: "nat \<Rightarrow> string" where
  "decimal n = (if n < 10 then [digit_char n] else decimal (n div 10) @ [digit_char (n mod 10)])"

declare decimal.simps [simp del]

definition scale10 :: "nat \<Rightarrow> nat \<Rightarrow> int \<Rightarrow> nat \<times> nat" where
  \<comment> \<open>the fraction \<open>(p / q) / 10^e\<close>\<close>
  "scale10 p q e = (if e < 0 then (p * 10 ^ nat (- e), q) else (p, q * 10 ^ nat e))"

function lead_shift :: "nat \<Rightarrow> nat \<Rightarrow> nat \<Rightarrow> nat" where
  \<comment> \<open>the least \<open>i \<ge> j\<close> with \<open>1 \<le> (p / q) * 10^i\<close>\<close>
  "lead_shift p q j = (if p = 0 \<or> q \<le> p * 10 ^ j then j else lead_shift p q (Suc j))"
  by pat_completeness auto
termination
proof (relation "measure (\<lambda>(p, q, j). q - p * 10 ^ j)")
  show "wf (measure (\<lambda>(p, q, j). q - p * 10 ^ j))" by simp
next
  fix p q j :: nat
  assume a: "\<not> (p = 0 \<or> q \<le> p * 10 ^ j)"
  then have below: "p * 10 ^ j < q" and grows: "p * 10 ^ j < p * 10 ^ Suc j"
    by simp_all
  have "q - p * 10 ^ Suc j < q - p * 10 ^ j"
    by (rule diff_less_mono2 [OF grows below])
  then show "((p, q, Suc j), (p, q, j)) \<in> measure (\<lambda>(p, q, j). q - p * 10 ^ j)"
    by simp
qed

declare lead_shift.simps [simp del]

definition decade :: "nat \<Rightarrow> nat \<Rightarrow> int" where
  \<comment> \<open>the \<open>n\<close> with \<open>10^(n - 1) \<le> p / q < 10^n\<close>, for \<open>p > 0\<close>\<close>
  "decade p q =
     (if q \<le> p then int (length (decimal (p div q))) else 1 - int (lead_shift p q 0))"

definition candidate_ok :: "number \<Rightarrow> nat \<Rightarrow> int \<Rightarrow> nat \<Rightarrow> bool" where
  \<comment> \<open>\<open>s\<close> has \<open>k\<close> digits and \<open>s * 10^(n - k)\<close> rounds to \<open>x\<close>\<close>
  "candidate_ok x k n s =
     (10 ^ (k - 1) \<le> s \<and> s < 10 ^ k \<and>
      (case scale10 s 1 (int k - n) of (p, q) \<Rightarrow> round_to_double False p q) = x)"

definition place :: "nat \<Rightarrow> int \<Rightarrow> nat \<Rightarrow> int \<times> nat" where
  \<comment> \<open>\<open>t * 10^(n0 - k)\<close> as \<open>k\<close> digits and an exponent: \<open>t = 10^k\<close> is the first
      \<open>k\<close>-digit value of the next decade\<close>
  "place k n0 t = (if t = 10 ^ k then (n0 + 1, 10 ^ (k - 1)) else (n0, t))"

definition candidates :: "nat \<Rightarrow> nat \<Rightarrow> nat \<Rightarrow> int \<Rightarrow> (int \<times> nat) list" where
  \<comment> \<open>the two \<open>k\<close>-digit neighbours of \<open>p / q\<close>, the nearer one first (the even one on
      a tie)\<close>
  "candidates p q k n0 =
     (case scale10 p q (n0 - int k) of (a, b) \<Rightarrow>
        let r = round_half_even a b; d = a div b
        in [place k n0 r, place k n0 (if r = d then d + 1 else d)])"

fun shortest :: "number \<Rightarrow> nat \<Rightarrow> nat \<Rightarrow> int \<Rightarrow> nat list \<Rightarrow> (int \<times> nat \<times> nat) option" where
  "shortest x p q n0 [] = None"
| "shortest x p q n0 (k # ks) =
     (case filter (\<lambda>(n, s). candidate_ok x k n s) (candidates p q k n0) of
        [] \<Rightarrow> shortest x p q n0 ks
      | (n, s) # _ \<Rightarrow> Some (n, k, s))"

definition format_digits :: "int \<Rightarrow> nat \<Rightarrow> nat \<Rightarrow> string" where
  "format_digits n k s =
     (let ds = decimal s in
      if - 6 < n \<and> n \<le> 21 then
        (if int k \<le> n then ds @ replicate (nat (n - int k)) (CHR ''0'')
         else if 0 < n then take (nat n) ds @ ''.'' @ drop (nat n) ds
         else ''0.'' @ replicate (nat (- n)) (CHR ''0'') @ ds)
      else
        (let ex = (if n - 1 < 0 then ''-'' else ''+'') @ decimal (nat \<bar>n - 1\<bar>)
         in if k = 1 then ds @ ''e'' @ ex
            else take 1 ds @ ''.'' @ drop 1 ds @ ''e'' @ ex))"

definition Number_toString :: "number \<Rightarrow> string" where
  "Number_toString x =
     (case x of
        NaN \<Rightarrow> ''NaN''
      | Infinity neg \<Rightarrow> (if neg then ''-Infinity'' else ''Infinity'')
      | Finite neg m e \<Rightarrow>
          if m = 0 then ''0''
          else
            (if neg then ''-'' else []) @
            (case scale2 m 1 (- e) of (p, q) \<Rightarrow>
               (case shortest (Finite False m e) p q (decade p q) [1 ..< 18] of
                  None \<Rightarrow> []
                | Some (n, k, s) \<Rightarrow> format_digits n k s)))"

section \<open>JavaScript values\<close>

text \<open>
  The values the three source files handle: \<open>undefined\<close>, \<open>null\<close>, booleans, numbers,
  strings, arrays and plain objects (what \<open>JSON.parse\<close> builds, and \<open>undefined\<close>).
  An object is the list of its own properties in insertion order, with distinct keys.
\<close>

datatype jsval =
    VUndefined
  | VNull
  | VBool bool
  | VNum number
  | VStr string
  | VArr "jsval list"
  | VObj "(string \<times> jsval) list"

fun join :: "string \<Rightarrow> string list \<Rightarrow> string" where
  "join sep [] = []"
| "join sep [x] = x"
| "join sep (x # y # ys) = x @ sep @ join sep (y # ys)"

text \<open>
  What can be thrown. A function that can throw returns \<open>Inl\<close> of the error, and
  \<open>then_do\<close> runs the next step only after a step that did not throw.
\<close>

datatype js_error = Error string | TypeError | SyntaxError

definition then_do :: "'e + 'a \<Rightarrow> ('a \<Rightarrow> 'e + 'b) \<Rightarrow> 'e + 'b" where
  "then_do r f = (case r of Inl e \<Rightarrow> Inl e | Inr x \<Rightarrow> f x)"

text \<open>
  \<open>ToString\<close>, as a template literal and a DOMString argument apply it. An array prints
  its elements separated by commas, \<open>undefined\<close> and \<open>null\<close> elements as the empty
  string. A plain object prints as \<open>[object Object]\<close> through the \<open>toString\<close> it
  inherits; when it has an own property \<open>toString\<close>, that value is not a function
  and the inherited \<open>valueOf\<close> returns the object itself, so the conversion throws a
  TypeError.
\<close>

fun ToString :: "jsval \<Rightarrow> js_error + string"
  and ToString_elements :: "jsval list \<Rightarrow> js_error + string list" where
  "ToString VUndefined = Inr ''undefined''"
| "ToString VNull = Inr ''null''"
| "ToString (VBool b) = Inr (if b then ''true'' else ''false'')"
| "ToString (VNum x) = Inr (Number_toString x)"
| "ToString (VStr s) = Inr s"
| "ToString (VArr vs) =
     (case ToString_elements vs of Inl e \<Rightarrow> Inl e | Inr ts \<Rightarrow> Inr (join '','' ts))"
| "ToString (VObj kvs) =
     (if map_of kvs ''toString'' = None then Inr ''[object Object]'' else Inl TypeError)"
| "ToString_elements [] = Inr []"
| "ToString_elements (v # vs) =
     (case (if v = VUndefined \<or> v = VNull then Inr [] else ToString v) of
        Inl e \<Rightarrow> Inl e
      | Inr t \<Rightarrow>
          (case ToString_elements vs of Inl e \<Rightarrow> Inl e | Inr ts \<Rightarrow> Inr (t # ts)))"

section \<open>JSON.stringify\<close>

definition hex_digit :: "nat \<Rightarrow> char" where
  "hex_digit d = (if d < 10 then char_of (48 + d) else char_of (87 + d))"

definition quote_char :: "char \<Rightarrow> string" where
  "quote_char c =
     (let n = (of_char c :: nat) in
      if n = 8 then [CHR 0x5C, CHR ''b'']
      else if n = 9 then [CHR 0x5C, CHR ''t'']
      else if n = 10 then [CHR 0x5C, CHR ''n'']
      else if n = 12 then [CHR 0x5C, CHR ''f'']
      else if n = 13 then [CHR 0x5C, CHR ''r'']
      else if n = 34 then [CHR 0x5C, CHR 0x22]
      else if n = 92 then [CHR 0x5C, CHR 0x5C]
      else if n < 32 then [CHR 0x5C, CHR ''u'', CHR ''0'', CHR ''0'', hex_digit (n div 16), hex_digit (n mod 16)]
      else [c])"

definition QuoteJSONString :: "string \<Rightarrow> string" where
  "QuoteJSONString s = [CHR 0x22] @ concat (map quote_char s) @ [CHR 0x22]"

definition json_number :: "number \<Rightarrow> string" where
  \<comment> \<open>a finite number is written by \<open>ToString\<close>, \<open>NaN\<close> and the infinities as \<open>null\<close>\<close>
  "json_number x = (case x of Finite neg m e \<Rightarrow> Number_toString x | _ \<Rightarrow> ''null'')"

text \<open>
  \<open>JSON.stringify\<close> without replacer or indentation. \<open>None\<close> is the result
  \<open>undefined\<close> (a value that has no JSON text). A number that is not finite is written
  \<open>null\<close>; an \<open>undefined\<close> array element is written \<open>null\<close> and an \<open>undefined\<close>
  property is left out.
\<close>

fun JSON_stringify :: "jsval \<Rightarrow> string option"
  and stringify_elements :: "jsval list \<Rightarrow> string list"
  and stringify_members :: "(string \<times> jsval) list \<Rightarrow> string list" where
  "JSON_stringify VUndefined = None"
| "JSON_stringify VNull = Some ''null''"
| "JSON_stringify (VBool b) = Some (if b then ''true'' else ''false'')"
| "JSON_stringify (VNum x) = Some (json_number x)"
| "JSON_stringify (VStr s) = Some (QuoteJSONString s)"
| "JSON_stringify (VArr vs) = Some (''['' @ join '','' (stringify_elements vs) @ '']'')"
| "JSON_stringify (VObj kvs) = Some (''{'' @ join '','' (stringify_members kvs) @ ''}'')"
| "stringify_elements [] = []"
| "stringify_elements (v # vs) =
     (case JSON_stringify v of None \<Rightarrow> ''null'' | Some t \<Rightarrow> t) # stringify_elements vs"
| "stringify_members [] = []"
| "stringify_members ((k, v) # kvs) =
     (case JSON_stringify v of
        None \<Rightarrow> stringify_members kvs
      | Some t \<Rightarrow> (QuoteJSONString k @ '':'' @ t) # stringify_members kvs)"

section \<open>Token store (src/frontend/src/hooks/useAuth.js)\<close>

text \<open>
  \<open>localStorage\<close> is a map from keys to string values. \<open>setItem\<close> takes a DOMString: its
  argument is converted with \<open>ToString\<close> before anything is stored, and when the
  conversion throws the storage is left as it was. \<open>getItem\<close> returns \<open>null\<close> (here
  \<open>None\<close>) for a key that is not stored. No storage quota is modelled. A function that
  can throw returns its outcome together with the storage it leaves.
\<close>

type_synonym storage = "string \<rightharpoonup> string"

definition setItem :: "string \<Rightarrow> jsval \<Rightarrow> storage \<Rightarrow> (js_error + unit) \<times> storage" where
  "setItem k v ls =
     (case ToString v of Inl e \<Rightarrow> (Inl e, ls) | Inr s \<Rightarrow> (Inr (), ls(k \<mapsto> s)))"

definition removeItem :: "string \<Rightarrow> storage \<Rightarrow> storage" where
  "removeItem k ls = ls(k := None)"

definition getItem :: "string \<Rightarrow> storage \<Rightarrow> string option" where
  "getItem k ls = ls k"

definition setToken :: "jsval \<Rightarrow> storage \<Rightarrow> (js_error + unit) \<times> storage" where
  "setToken token ls = setItem ''fra_token'' token ls"

definition clearToken :: "storage \<Rightarrow> storage" where
  "clearToken ls = removeItem ''fra_token'' ls"

definition getToken :: "storage \<Rightarrow> string option" where
  "getToken ls = getItem ''fra_token'' ls"

text \<open>
  A history of calls on the hook's three functions, run in list order (a caller that
  catches the error of one call goes on to the next), and whether a token is outstanding
  after it: a \<open>setToken\<close> that completes leaves one, a \<open>clearToken\<close> leaves none, a
  \<open>getToken\<close> or a \<open>setToken\<close> that throws changes nothing.
\<close>

definition has_string_form :: "jsval \<Rightarrow> bool" where
  "has_string_form v = (case ToString v of Inl e \<Rightarrow> False | Inr s \<Rightarrow> True)"

datatype token_op = SetToken jsval | ClearToken | GetToken

fun apply_token_op :: "token_op \<Rightarrow> storage \<Rightarrow> storage" where
  "apply_token_op (SetToken v) ls = snd (setToken v ls)"
| "apply_token_op ClearToken ls = clearToken ls"
| "apply_token_op GetToken ls = ls"

fun run_token_ops :: "token_op list \<Rightarrow> storage \<Rightarrow> storage" where
  "run_token_ops [] ls = ls"
| "run_token_ops (x # xs) ls = run_token_ops xs (apply_token_op x ls)"

fun set_since_clear :: "token_op list \<Rightarrow> bool \<Rightarrow> bool" where
  "set_since_clear [] present = present"
| "set_since_clear (SetToken v # xs) present = set_since_clear xs (has_string_form v \<or> present)"
| "set_since_clear (ClearToken # xs) present = set_since_clear xs False"
| "set_since_clear (GetToken # xs) present = set_since_clear xs present"

section \<open>API client (src/unnamed/part\_001)\<close>

text \<open>
  The interceptor receives a reference to the request config and assigns to a property
  of the object that \<open>config.headers\<close> refers to, so configs and headers objects live in
  a heap. A config record is extensible: its \<open>more\<close> part stands for every field other
  than the four named here (\<open>http_method\<close> and \<open>req_data\<close> are the fields
  \<open>config.method\<close> and \<open>config.data\<close>).
\<close>

type_synonym ref = nat

record config =
  url :: string
  http_method :: string
  req_data :: jsval
  headers :: ref

record 'a heap =
  configs :: "ref \<Rightarrow> 'a config_scheme"
  header_objs :: "ref \<Rightarrow> (string \<rightharpoonup> string)"

definition request_header :: "'a heap \<Rightarrow> ref \<Rightarrow> string \<Rightarrow> string option" where
  \<comment> \<open>\<open>config.headers[name]\<close>, read through the heap\<close>
  "request_header h c name = header_objs h (headers (configs h c)) name"

definition request_interceptor :: "storage \<Rightarrow> ref \<Rightarrow> 'a heap \<Rightarrow> ref \<times> 'a heap" where
  "request_interceptor ls c h =
     (case getItem ''fra_token'' ls of
        None \<Rightarrow> (c, h)
      | Some token \<Rightarrow>
          if token \<noteq> [] then
            (let hs = headers (configs h c) in
             (c, h\<lparr>header_objs := (header_objs h)
                      (hs := (header_objs h hs)(''Authorization'' \<mapsto> ''Bearer '' @ token))\<rparr>))
          else (c, h))"

section \<open>Analysis request flow (src/unnamed/part\_000)\<close>

text \<open>
  What the script can observe and change: the document (element id to the \<open>innerHTML\<close>
  last assigned; \<open>None\<close> when no element has the id), the console, and the calls made
  to \<open>fetch\<close>. The network is a parameter: a function from the call to its outcome,
  a rejection or a response with its status and the outcome of \<open>response.json()\<close>.
\<close>

record fetch_call =
  resource :: string
  init_method :: string
  init_headers :: "(string \<times> string) list"
  init_body :: "string option"

record response =
  status :: nat
  json_result :: "js_error + jsval"

datatype fetch_outcome = Rejected js_error | Resolved response

datatype console_entry = ConsoleLog string jsval | ConsoleError string js_error

record world =
  dom :: "string \<rightharpoonup> string"
  console :: "console_entry list"
  fetched :: "fetch_call list"

definition ok :: "response \<Rightarrow> bool" where
  "ok r = (200 \<le> status r \<and> status r \<le> 299)"

definition API_URL :: string where
  "API_URL = ''http://127.0.0.1:5000/api/analyze''"

text \<open>
  Reading a property: of \<open>undefined\<close> or \<open>null\<close> it throws a TypeError; of an object
  it gives the own property, or \<open>undefined\<close>; of any other value it gives \<open>undefined\<close>.
  This is the reading of a name that no built-in prototype defines, as the five names
  are that \<open>displayResults\<close> reads this way.
\<close>

definition get_member :: "jsval \<Rightarrow> string \<Rightarrow> js_error + jsval" where
  "get_member v name =
     (case v of
        VUndefined \<Rightarrow> Inl TypeError
      | VNull \<Rightarrow> Inl TypeError
      | VObj kvs \<Rightarrow> Inr (case map_of kvs name of None \<Rightarrow> VUndefined | Some x \<Rightarrow> x)
      | _ \<Rightarrow> Inr VUndefined)"

text \<open>
  \<open>v.map(f)\<close>: only an array has a callable \<open>map\<close>, which calls \<open>f\<close> on the elements
  in order and stops at the first call that throws. Reading \<open>map\<close> of \<open>undefined\<close> or
  \<open>null\<close> throws, and on every other value \<open>v.map\<close> is \<open>undefined\<close> or a value that is
  not a function, so the call throws a TypeError as well.
\<close>

fun map_throwing :: "('a \<Rightarrow> js_error + 'b) \<Rightarrow> 'a list \<Rightarrow> js_error + 'b list" where
  "map_throwing f [] = Inr []"
| "map_throwing f (x # xs) =
     (case f x of
        Inl e \<Rightarrow> Inl e
      | Inr y \<Rightarrow> (case map_throwing f xs of Inl e \<Rightarrow> Inl e | Inr ys \<Rightarrow> Inr (y # ys)))"

definition call_map :: "jsval \<Rightarrow> (jsval \<Rightarrow> js_error + 'a) \<Rightarrow> js_error + 'a list" where
  "call_map v f = (case v of VArr xs \<Rightarrow> map_throwing f xs | _ \<Rightarrow> Inl TypeError)"

definition nl :: string where
  "nl = [CHR 0x0A]"

definition list_item :: "jsval \<Rightarrow> js_error + string" where
  \<comment> \<open>the callback of \<open>map\<close>: the template literal around one action\<close>
  "list_item action = then_do (ToString action) (\<lambda>t. Inr (''<li>'' @ t @ ''</li>''))"

definition render_results :: "jsval \<Rightarrow> js_error + string" where
  \<comment> \<open>the template literal of \<open>displayResults\<close>: each substitution is evaluated and
      converted to a string before the next one is evaluated\<close>
  "render_results data =
     then_do (get_member data ''fra_analysis'') (\<lambda>fa1.
     then_do (get_member fa1 ''overall_suitability'') (\<lambda>v1.
     then_do (ToString v1) (\<lambda>overall_suitability.
     then_do (get_member data ''fra_analysis'') (\<lambda>fa2.
     then_do (get_member fa2 ''total_score'') (\<lambda>v2.
     then_do (ToString v2) (\<lambda>total_score.
     then_do (get_member data ''recommendations'') (\<lambda>recommendations.
     then_do (get_member recommendations ''immediate_actions'') (\<lambda>immediate_actions.
     then_do (call_map immediate_actions list_item) (\<lambda>items.
     Inr (nl @
          ''            <h2>Analysis Results</h2>'' @ nl @
          ''            <p>Overall Suitability: '' @ overall_suitability @ ''</p>'' @ nl @
          ''            <p>Total Score: '' @ total_score @ ''</p>'' @ nl @
          ''            <h3>Recommendations</h3>'' @ nl @
          ''            <ul>'' @ nl @
          ''                '' @ join [] items @ nl @
          ''            </ul>'' @ nl @
          ''        ''))))))))))"

definition displayResults :: "jsval \<Rightarrow> (string \<rightharpoonup> string) \<Rightarrow> js_error + (string \<rightharpoonup> string)" where
  "displayResults data d =
     (case d ''results-container'' of
        None \<Rightarrow> Inr d
      | Some old \<Rightarrow>
          then_do (render_results data) (\<lambda>html. Inr (d(''results-container'' \<mapsto> html))))"

text \<open>
  The three arguments of \<open>analyzeLocation\<close> are strings: the page passes it the values
  of its input fields.
\<close>

definition payload :: "string \<Rightarrow> string \<Rightarrow> string \<Rightarrow> jsval" where
  "payload latitude longitude radius =
     VObj [(''latitude'', VNum (parseFloat latitude)),
           (''longitude'', VNum (parseFloat longitude)),
           (''radius_km'', VNum (parseFloat radius))]"

definition analysis_request :: "string \<Rightarrow> string \<Rightarrow> string \<Rightarrow> fetch_call" where
  "analysis_request latitude longitude radius =
     \<lparr>resource = API_URL,
      init_method = ''POST'',
      init_headers = [(''Content-Type'', ''application/json'')],
      init_body = JSON_stringify (payload latitude longitude radius)\<rparr>"

text \<open>
  The body of the \<open>try\<close> block: \<open>Inl e\<close> when it throws \<open>e\<close>, with the world as the
  statements before the throw left it.
\<close>

definition analyzeLocation_try ::
  "(fetch_call \<Rightarrow> fetch_outcome) \<Rightarrow> string \<Rightarrow> string \<Rightarrow> string \<Rightarrow> world \<Rightarrow> (js_error + unit) \<times> world" where
  "analyzeLocation_try fetch latitude longitude radius w =
     (let call = analysis_request latitude longitude radius;
          w1 = w\<lparr>fetched := fetched w @ [call]\<rparr>
      in case fetch call of
           Rejected e \<Rightarrow> (Inl e, w1)
         | Resolved r \<Rightarrow>
             if \<not> ok r then
               (Inl (Error (''HTTP error! status: '' @ decimal (status r))), w1)
             else
               (case json_result r of
                  Inl e \<Rightarrow> (Inl e, w1)
                | Inr analysisData \<Rightarrow>
                    let w2 = w1\<lparr>console := console w1 @ [ConsoleLog ''API Response:'' analysisData]\<rparr>
                    in case displayResults analysisData (dom w2) of
                         Inl e \<Rightarrow> (Inl e, w2)
                       | Inr d \<Rightarrow> (Inr (), w2\<lparr>dom := d\<rparr>)))"

text \<open>
  \<open>analyzeLocation\<close>: the \<open>try\<close> block under its \<open>catch\<close>. The result is \<open>Inl e\<close> when
  the promise it returns rejects with \<open>e\<close>, and \<open>Inr ()\<close> when it fulfils.
\<close>

definition analyzeLocation ::
  "(fetch_call \<Rightarrow> fetch_outcome) \<Rightarrow> string \<Rightarrow> string \<Rightarrow> string \<Rightarrow> world \<Rightarrow> (js_error + unit) \<times> world" where
  "analyzeLocation fetch latitude longitude radius w =
     (case analyzeLocation_try fetch latitude longitude radius w of
        (Inl error, w') \<Rightarrow>
          (Inr (), w'\<lparr>console := console w' @
                       [ConsoleError ''There was a problem with the fetch operation:'' error]\<rparr>)
      | (Inr u, w') \<Rightarrow> (Inr u, w'))"

section \<open>Token store: properties\<close>

text \<open>
  C3. For every string \<open>T\<close> (the non-empty ones among them), \<open>setToken(T)\<close> completes
  and a following \<open>getToken()\<close> returns exactly \<open>T\<close>, whatever was stored before.
\<close>

theorem setToken_getToken_roundtrip:
  "setToken (VStr T) ls = (Inr (), ls(''fra_token'' \<mapsto> T))
   \<and> getToken (snd (setToken (VStr T) ls)) = Some T"
  by (simp add: getToken_def setToken_def getItem_def setItem_def)

text \<open>
  C7. From every storage state \<open>clearToken()\<close> returns a state (it has no failing
  branch), a following \<open>getToken()\<close> returns \<open>null\<close>, and a second \<open>clearToken()\<close>
  leaves the cleared state as it is.
\<close>

theorem clearToken_idempotent:
  "getToken (clearToken ls) = None \<and> clearToken (clearToken ls) = clearToken ls"
  by (simp add: getToken_def clearToken_def getItem_def removeItem_def)

lemma setToken_completes:
  "ToString v = Inr s \<Longrightarrow> setToken v ls = (Inr (), ls(''fra_token'' \<mapsto> s))"
  by (simp add: setToken_def setItem_def)

lemma setToken_throws:
  "ToString v = Inl e \<Longrightarrow> setToken v ls = (Inl e, ls)"
  by (simp add: setToken_def setItem_def)

lemma getToken_update: "getToken (ls(''fra_token'' \<mapsto> s)) = Some s"
  by (simp add: getToken_def getItem_def)

lemma getToken_after_setToken:
  "getToken (snd (setToken v ls)) = None \<longleftrightarrow> \<not> (has_string_form v \<or> getToken ls \<noteq> None)"
  by (cases "ToString v")
    (simp_all add: has_string_form_def setToken_completes setToken_throws getToken_update)

lemma getToken_clearToken: "getToken (clearToken ls) = None"
  by (simp add: getToken_def clearToken_def getItem_def removeItem_def)

lemma getToken_run_token_ops:
  "(getToken (run_token_ops ops ls) = None) = (\<not> set_since_clear ops (getToken ls \<noteq> None))"
proof (induction ops arbitrary: ls)
  case Nil
  show ?case by simp
next
  case (Cons x xs)
  show ?case
  proof (cases x)
    case (SetToken v)
    have "(getToken (snd (setToken v ls)) \<noteq> None) = (has_string_form v \<or> getToken ls \<noteq> None)"
      using getToken_after_setToken [of v ls] by auto
    then show ?thesis using SetToken Cons [of "snd (setToken v ls)"] by simp
  next
    case ClearToken
    then show ?thesis using Cons [of "clearToken ls"] by (simp add: getToken_clearToken)
  next
    case GetToken
    then show ?thesis using Cons [of ls] by simp
  qed
qed

lemma Number_toString_42: "Number_toString (Finite False 5910974510923776 (- 47)) = ''42''"
  by code_simp

text \<open>
  C9, as the code has it. \<open>setToken\<close> stores the string form of what it is given: when
  \<open>v\<close> has a string form \<open>s\<close>, \<open>setToken(v)\<close> completes and a following \<open>getToken()\<close>
  returns \<open>s\<close> (the string \<open>null\<close> for \<open>null\<close>, \<open>undefined\<close> for \<open>undefined\<close>), not
  \<open>null\<close>. When the conversion of \<open>v\<close> throws, \<open>setToken(v)\<close> throws the same error
  and stores nothing. After any history of calls, \<open>getToken()\<close> returns \<open>null\<close>
  exactly when no \<open>setToken\<close> has completed since the last \<open>clearToken\<close>, or, with no
  \<open>clearToken\<close> in the history, none has completed at all and the key was not stored
  at the start.
\<close>

theorem setToken_stores_string_form:
  "(ToString v = Inr s \<longrightarrow>
      setToken v ls = (Inr (), ls(''fra_token'' \<mapsto> s))
      \<and> getToken (snd (setToken v ls)) = Some s
      \<and> getToken (snd (setToken v ls)) \<noteq> None)
   \<and> (ToString v = Inl e \<longrightarrow> setToken v ls = (Inl e, ls))
   \<and> getToken (snd (setToken VNull ls)) = Some ''null''
   \<and> getToken (snd (setToken VUndefined ls)) = Some ''undefined''
   \<and> (getToken (run_token_ops ops ls) = None)
       = (\<not> set_since_clear ops (getToken ls \<noteq> None))"
  by (simp add: setToken_completes setToken_throws getToken_update getToken_run_token_ops)

theorem setToken_stores_string_form_witness:
  "ToString (VNum (Finite False 5910974510923776 (- 47))) = Inr ''42''
   \<and> getToken (snd (setToken (VNum (Finite False 5910974510923776 (- 47))) Map.empty)) = Some ''42''
   \<and> ToString (VObj [(''toString'', VNull)]) = Inl TypeError
   \<and> setToken (VObj [(''toString'', VNull)]) [''fra_token'' \<mapsto> ''abc'']
       = (Inl TypeError, [''fra_token'' \<mapsto> ''abc''])
   \<and> getToken (run_token_ops [SetToken (VBool True), GetToken, ClearToken, GetToken] Map.empty)
       = None
   \<and> getToken (run_token_ops [ClearToken, SetToken (VArr [VNull, VBool False])] Map.empty)
       \<noteq> None"
  using
    setToken_stores_string_form
      [where v = "VNum (Finite False 5910974510923776 (- 47))" and s = "''42''"
         and ls = Map.empty and e = TypeError
         and ops = "[SetToken (VBool True), GetToken, ClearToken, GetToken]"]
    setToken_stores_string_form
      [where v = "VObj [(''toString'', VNull)]" and s = "''42''"
         and ls = "[''fra_token'' \<mapsto> ''abc'']" and e = TypeError
         and ops = "[ClearToken, SetToken (VArr [VNull, VBool False])]"]
    setToken_stores_string_form
      [where v = "VNull" and s = "''null''"
         and ls = Map.empty and e = TypeError
         and ops = "[ClearToken, SetToken (VArr [VNull, VBool False])]"]
  by (simp add: Number_toString_42 has_string_form_def getToken_def getItem_def)

text \<open>
  The claim C9 has every non-string value stored in its string form. An object with an
  own property \<open>toString\<close> is a non-string value without a string form: \<open>setToken\<close>
  throws on it, and on a storage without a token \<open>getToken()\<close> still returns \<open>null\<close>
  afterwards.
\<close>

theorem setToken_non_string_counterexample:
  "setToken (VObj [(''toString'', VNull)]) Map.empty = (Inl TypeError, Map.empty)
   \<and> getToken (snd (setToken (VObj [(''toString'', VNull)]) Map.empty)) = None"
  by (simp add: setToken_def setItem_def getToken_def getItem_def)

section \<open>API client: properties\<close>

lemma interceptor_no_token:
  "getItem ''fra_token'' ls = None \<Longrightarrow> request_interceptor ls c h = (c, h)"
  by (simp add: request_interceptor_def)

lemma interceptor_empty_token:
  "getItem ''fra_token'' ls = Some [] \<Longrightarrow> request_interceptor ls c h = (c, h)"
  by (simp add: request_interceptor_def)

lemma interceptor_token:
  "getItem ''fra_token'' ls = Some T \<Longrightarrow> T \<noteq> [] \<Longrightarrow>
   request_interceptor ls c h =
     (c, h\<lparr>header_objs := (header_objs h)
              (headers (configs h c) :=
                 (header_objs h (headers (configs h c)))(''Authorization'' \<mapsto> ''Bearer '' @ T))\<rparr>)"
  by (simp add: request_interceptor_def Let_def)

text \<open>
  C2. With a non-empty token \<open>T\<close> stored when the interceptor runs, the config it returns
  carries \<open>Authorization\<close> with the value \<open>Bearer T\<close>. With no token stored the
  interceptor writes no header: config and heap come back as they were, so a request
  whose config had no \<open>Authorization\<close> header goes out without one.
\<close>

theorem interceptor_authorization:
  "(getToken ls = Some T \<and> T \<noteq> [] \<longrightarrow>
      (case request_interceptor ls c h of (c', h') \<Rightarrow>
         request_header h' c' ''Authorization'' = Some (''Bearer '' @ T)))
   \<and> (getToken ls = None \<longrightarrow>
      request_interceptor ls c h = (c, h)
      \<and> (case request_interceptor ls c h of (c', h') \<Rightarrow>
           request_header h' c' ''Authorization'' = request_header h c ''Authorization'')
      \<and> (request_header h c ''Authorization'' = None \<longrightarrow>
           (case request_interceptor ls c h of (c', h') \<Rightarrow>
              request_header h' c' ''Authorization'' = None)))"
proof (intro conjI impI)
  assume a: "getToken ls = Some T \<and> T \<noteq> []"
  then have "getItem ''fra_token'' ls = Some T" and "T \<noteq> []"
    by (simp_all add: getToken_def)
  then show "case request_interceptor ls c h of (c', h') \<Rightarrow>
               request_header h' c' ''Authorization'' = Some (''Bearer '' @ T)"
    by (simp add: interceptor_token request_header_def)
next
  assume "getToken ls = None"
  then have n: "getItem ''fra_token'' ls = None" by (simp add: getToken_def)
  show "request_interceptor ls c h = (c, h)" by (rule interceptor_no_token [OF n])
  show "case request_interceptor ls c h of (c', h') \<Rightarrow>
          request_header h' c' ''Authorization'' = request_header h c ''Authorization''"
    by (simp add: interceptor_no_token [OF n])
  assume "request_header h c ''Authorization'' = None"
  then show "case request_interceptor ls c h of (c', h') \<Rightarrow>
               request_header h' c' ''Authorization'' = None"
    by (simp add: interceptor_no_token [OF n])
qed

theorem interceptor_authorization_witness:
  "getToken [''fra_token'' \<mapsto> ''abc''] = Some ''abc''
   \<and> (case request_interceptor [''fra_token'' \<mapsto> ''abc''] 0
          \<lparr>configs = \<lambda>r. \<lparr>url = ''/claims'', http_method = ''get'', req_data = VUndefined, headers = 7\<rparr>,
           header_objs = \<lambda>r. [''Accept'' \<mapsto> ''application/json'']\<rparr> of
        (c', h') \<Rightarrow> request_header h' c' ''Authorization'' = Some ''Bearer abc'')
   \<and> getToken Map.empty = None
   \<and> request_interceptor Map.empty 0
          \<lparr>configs = \<lambda>r. \<lparr>url = ''/claims'', http_method = ''get'', req_data = VUndefined, headers = 7\<rparr>,
           header_objs = \<lambda>r. [''Accept'' \<mapsto> ''application/json'']\<rparr>
       = (0, \<lparr>configs = \<lambda>r. \<lparr>url = ''/claims'', http_method = ''get'', req_data = VUndefined, headers = 7\<rparr>,
              header_objs = \<lambda>r. [''Accept'' \<mapsto> ''application/json'']\<rparr>)
   \<and> request_header
         (snd (request_interceptor Map.empty 0
           \<lparr>configs = \<lambda>r. \<lparr>url = ''/claims'', http_method = ''get'', req_data = VUndefined, headers = 7\<rparr>,
            header_objs = \<lambda>r. [''Accept'' \<mapsto> ''application/json'']\<rparr>)) 0 ''Authorization'' = None"
  using
    interceptor_authorization [where ls = "[''fra_token'' \<mapsto> ''abc'']" and T = "''abc''" and c = 0 and h =
      "\<lparr>configs = \<lambda>r. \<lparr>url = ''/claims'', http_method = ''get'', req_data = VUndefined, headers = 7\<rparr>,
        header_objs = \<lambda>r. [''Accept'' \<mapsto> ''application/json'']\<rparr>"]
    interceptor_authorization [where ls = "Map.empty" and T = "''abc''" and c = 0 and h =
      "\<lparr>configs = \<lambda>r. \<lparr>url = ''/claims'', http_method = ''get'', req_data = VUndefined, headers = 7\<rparr>,
        header_objs = \<lambda>r. [''Accept'' \<mapsto> ''application/json'']\<rparr>"]
  by (simp add: getToken_def getItem_def request_header_def)

text \<open>
  C10. The interceptor returns the reference it was given. No config object is written,
  so every field of every config (method, URL, data and the rest) is as before; in the
  headers objects only the \<open>Authorization\<close> property of this config's headers can
  differ; and with no token stored the heap is returned as it was.
\<close>

theorem interceptor_frame:
  "case request_interceptor ls c h of (c', h') \<Rightarrow>
     c' = c
     \<and> configs h' = configs h
     \<and> heap.more h' = heap.more h
     \<and> (\<forall>r name. r \<noteq> headers (configs h c) \<or> name \<noteq> ''Authorization'' \<longrightarrow>
            header_objs h' r name = header_objs h r name)
     \<and> (getToken ls = None \<longrightarrow> h' = h)"
  by (auto simp: request_interceptor_def getToken_def Let_def split: option.splits)

theorem interceptor_frame_witness:
  "(case request_interceptor [''fra_token'' \<mapsto> ''abc''] 0
          \<lparr>configs = \<lambda>r. \<lparr>url = ''/claims'', http_method = ''get'', req_data = VUndefined, headers = 7\<rparr>,
           header_objs = \<lambda>r. [''Accept'' \<mapsto> ''application/json'']\<rparr> of
      (c', h') \<Rightarrow>
        c' = 0
        \<and> url (configs h' c') = ''/claims''
        \<and> http_method (configs h' c') = ''get''
        \<and> req_data (configs h' c') = VUndefined
        \<and> header_objs h' 7 ''Accept'' = Some ''application/json''
        \<and> header_objs h' 8 ''Authorization'' = None)
   \<and> getToken Map.empty = None
   \<and> snd (request_interceptor Map.empty 0
          \<lparr>configs = \<lambda>r. \<lparr>url = ''/claims'', http_method = ''get'', req_data = VUndefined, headers = 7\<rparr>,
           header_objs = \<lambda>r. [''Accept'' \<mapsto> ''application/json'']\<rparr>)
       = \<lparr>configs = \<lambda>r. \<lparr>url = ''/claims'', http_method = ''get'', req_data = VUndefined, headers = 7\<rparr>,
          header_objs = \<lambda>r. [''Accept'' \<mapsto> ''application/json'']\<rparr>"
  using
    interceptor_frame [where ls = "[''fra_token'' \<mapsto> ''abc'']" and c = 0 and h =
      "\<lparr>configs = \<lambda>r. \<lparr>url = ''/claims'', http_method = ''get'', req_data = VUndefined, headers = 7\<rparr>,
        header_objs = \<lambda>r. [''Accept'' \<mapsto> ''application/json'']\<rparr>"]
    interceptor_frame [where ls = "Map.empty" and c = 0 and h =
      "\<lparr>configs = \<lambda>r. \<lparr>url = ''/claims'', http_method = ''get'', req_data = VUndefined, headers = 7\<rparr>,
        header_objs = \<lambda>r. [''Accept'' \<mapsto> ''application/json'']\<rparr>"]
  by (auto simp: getToken_def getItem_def split: prod.splits)

section \<open>Analysis request flow: properties\<close>

subsection \<open>The request\<close>

lemma analyzeLocation_try_fetched:
  "fetched (snd (analyzeLocation_try fetch latitude longitude radius w))
     = fetched w @ [analysis_request latitude longitude radius]"
  by (simp add: analyzeLocation_try_def Let_def split: fetch_outcome.splits sum.splits)

lemma analyzeLocation_fetched:
  "fetched (snd (analyzeLocation fetch latitude longitude radius w))
     = fetched w @ [analysis_request latitude longitude radius]"
  using analyzeLocation_try_fetched [of fetch latitude longitude radius w]
  by (auto simp: analyzeLocation_def split: prod.splits sum.splits)

lemma quote_latitude: \<open>QuoteJSONString ''latitude'' = ''"latitude"''\<close>
  by (simp add: QuoteJSONString_def quote_char_def)

lemma quote_longitude: \<open>QuoteJSONString ''longitude'' = ''"longitude"''\<close>
  by (simp add: QuoteJSONString_def quote_char_def)

lemma quote_radius_km: \<open>QuoteJSONString ''radius_km'' = ''"radius_km"''\<close>
  by (simp add: QuoteJSONString_def quote_char_def)

lemma analysis_request_body:
  \<open>init_body (analysis_request latitude longitude radius) =
     Some (''{"latitude":'' @ json_number (parseFloat latitude) @
           '',"longitude":'' @ json_number (parseFloat longitude) @
           '',"radius_km":'' @ json_number (parseFloat radius) @ ''}'')\<close>
  by (simp add: analysis_request_def payload_def quote_latitude quote_longitude quote_radius_km)

text \<open>The three numbers of the page's click handler, and an input that is no number.\<close>

lemma parse_23_3441: "parseFloat ''23.3441'' = Finite False 6570780003831225 (- 48)"
  by code_simp

lemma parse_85_3096: "parseFloat ''85.3096'' = Finite False 6003129418298845 (- 46)"
  by code_simp

lemma parse_2_0: "parseFloat ''2.0'' = Finite False 4503599627370496 (- 51)"
  by code_simp

lemma parse_abc: "parseFloat ''abc'' = NaN"
  by code_simp

text \<open>
  More generally the result is \<open>NaN\<close> for the empty string and whenever the first
  character after the white space cannot start a number.
\<close>

lemma parseFloat_not_a_number:
  assumes "dropWhile is_white_space s = c # r"
    and "\<not> is_digit c"
    and "c \<noteq> CHR ''+''" and "c \<noteq> CHR ''-''" and "c \<noteq> CHR ''.''" and "c \<noteq> CHR ''I''"
  shows "parseFloat s = NaN"
  using assms by (simp add: parseFloat_def parse_unsigned_def)

lemma parseFloat_empty: "parseFloat [] = NaN"
  by (simp add: parseFloat_def)

lemma json_23_3441: "json_number (Finite False 6570780003831225 (- 48)) = ''23.3441''"
  by code_simp

lemma json_85_3096: "json_number (Finite False 6003129418298845 (- 46)) = ''85.3096''"
  by code_simp

lemma json_2: "json_number (Finite False 4503599627370496 (- 51)) = ''2''"
  by code_simp

lemma json_NaN: "json_number NaN = ''null''"
  by (simp add: json_number_def)

lemma example_body:
  \<open>init_body (analysis_request ''23.3441'' ''85.3096'' ''2.0'') =
     Some ''{"latitude":23.3441,"longitude":85.3096,"radius_km":2}''\<close>
  by (simp add: analysis_request_body parse_23_3441 parse_85_3096 parse_2_0
      json_23_3441 json_85_3096 json_2)

lemma parse_2: "parseFloat ''2'' = Finite False 4503599627370496 (- 51)"
  by code_simp

text \<open>
  C6. Every call of \<open>analyzeLocation\<close> makes exactly one call of \<open>fetch\<close>: a POST to
  the fixed URL with content type \<open>application/json\<close>, whose body is the JSON text of
  an object with the fields \<open>latitude\<close>, \<open>longitude\<close> and \<open>radius_km\<close> holding
  \<open>parseFloat\<close> of the three inputs. For the inputs \<open>23.3441\<close>, \<open>85.3096\<close> and
  \<open>2.0\<close> the object holds the Numbers 23.3441, 85.3096 and 2.0, and the body is the
  JSON text \<open>{"latitude":23.3441,"longitude":85.3096,"radius_km":2}\<close>. In that text
  the Number 2.0 is spelled \<open>2\<close>; \<open>2\<close> and \<open>2.0\<close> are the same Number, so this is
  the JSON body \<open>{"latitude":23.3441,"longitude":85.3096,"radius_km":2.0}\<close>.
\<close>

theorem analyzeLocation_posts_payload:
  \<open>fetched (snd (analyzeLocation fetch latitude longitude radius w))
     = fetched w @ [analysis_request latitude longitude radius]
   \<and> analysis_request latitude longitude radius
     = \<lparr>resource = ''http://127.0.0.1:5000/api/analyze'',
        init_method = ''POST'',
        init_headers = [(''Content-Type'', ''application/json'')],
        init_body = JSON_stringify
          (VObj [(''latitude'', VNum (parseFloat latitude)),
                 (''longitude'', VNum (parseFloat longitude)),
                 (''radius_km'', VNum (parseFloat radius))])\<rparr>
   \<and> init_body (analysis_request latitude longitude radius)
     = Some (''{"latitude":'' @ json_number (parseFloat latitude) @
             '',"longitude":'' @ json_number (parseFloat longitude) @
             '',"radius_km":'' @ json_number (parseFloat radius) @ ''}'')
   \<and> init_body (analysis_request ''23.3441'' ''85.3096'' ''2.0'')
     = Some ''{"latitude":23.3441,"longitude":85.3096,"radius_km":2}''
   \<and> payload ''23.3441'' ''85.3096'' ''2.0''
     = VObj [(''latitude'', VNum (Finite False 6570780003831225 (- 48))),
             (''longitude'', VNum (Finite False 6003129418298845 (- 46))),
             (''radius_km'', VNum (Finite False 4503599627370496 (- 51)))]
   \<and> parseFloat ''2.0'' = parseFloat ''2''
   \<and> init_body (analysis_request ''23.3441'' ''85.3096'' ''2.0'')
     = init_body (analysis_request ''23.3441'' ''85.3096'' ''2'')\<close>
proof (intro conjI)
  show "fetched (snd (analyzeLocation fetch latitude longitude radius w))
          = fetched w @ [analysis_request latitude longitude radius]"
    by (rule analyzeLocation_fetched)
  show "analysis_request latitude longitude radius
     = \<lparr>resource = ''http://127.0.0.1:5000/api/analyze'',
        init_method = ''POST'',
        init_headers = [(''Content-Type'', ''application/json'')],
        init_body = JSON_stringify
          (VObj [(''latitude'', VNum (parseFloat latitude)),
                 (''longitude'', VNum (parseFloat longitude)),
                 (''radius_km'', VNum (parseFloat radius))])\<rparr>"
    by (simp add: analysis_request_def payload_def API_URL_def)
  show \<open>init_body (analysis_request latitude longitude radius)
     = Some (''{"latitude":'' @ json_number (parseFloat latitude) @
             '',"longitude":'' @ json_number (parseFloat longitude) @
             '',"radius_km":'' @ json_number (parseFloat radius) @ ''}'')\<close>
    by (rule analysis_request_body)
  show \<open>init_body (analysis_request ''23.3441'' ''85.3096'' ''2.0'')
     = Some ''{"latitude":23.3441,"longitude":85.3096,"radius_km":2}''\<close>
    by (rule example_body)
  show "payload ''23.3441'' ''85.3096'' ''2.0''
     = VObj [(''latitude'', VNum (Finite False 6570780003831225 (- 48))),
             (''longitude'', VNum (Finite False 6003129418298845 (- 46))),
             (''radius_km'', VNum (Finite False 4503599627370496 (- 51)))]"
    by (simp add: payload_def parse_23_3441 parse_85_3096 parse_2_0)
  show same: "parseFloat ''2.0'' = parseFloat ''2''"
    by (simp add: parse_2_0 parse_2)
  show "init_body (analysis_request ''23.3441'' ''85.3096'' ''2.0'')
     = init_body (analysis_request ''23.3441'' ''85.3096'' ''2'')"
    by (simp add: analysis_request_def payload_def same)
qed

text \<open>
  C4. When \<open>parseFloat\<close> of the latitude is \<open>NaN\<close>, serialisation does not fail: the
  one request that is made carries the field \<open>latitude\<close> as \<open>null\<close>.
\<close>

theorem nan_latitude_sent_as_null:
  assumes "parseFloat latitude = NaN"
  shows \<open>init_body (analysis_request latitude longitude radius)
           = Some (''{"latitude":null,"longitude":'' @ json_number (parseFloat longitude) @
                   '',"radius_km":'' @ json_number (parseFloat radius) @ ''}'')
         \<and> fetched (snd (analyzeLocation fetch latitude longitude radius w))
           = fetched w @ [analysis_request latitude longitude radius]\<close>
  using assms by (simp add: analysis_request_body analyzeLocation_fetched json_NaN)

theorem nan_latitude_sent_as_null_witness:
  \<open>parseFloat ''abc'' = NaN
   \<and> init_body (analysis_request ''abc'' ''85.3096'' ''2.0'')
       = Some ''{"latitude":null,"longitude":85.3096,"radius_km":2}''
   \<and> fetched (snd (analyzeLocation (\<lambda>call. Rejected TypeError)
                      ''abc'' ''85.3096'' ''2.0''
                      \<lparr>dom = Map.empty, console = [], fetched = []\<rparr>))
       = [analysis_request ''abc'' ''85.3096'' ''2.0'']\<close>
  using nan_latitude_sent_as_null [where latitude = "''abc''"
      and longitude = "''85.3096''" and radius = "''2.0''"
      and fetch = "\<lambda>call. Rejected TypeError"
      and w = "\<lparr>dom = Map.empty, console = [], fetched = []\<rparr>", OF parse_abc]
  by (simp add: parse_abc parse_85_3096 parse_2_0 json_85_3096 json_2)

subsection \<open>Rendering\<close>

text \<open>
  C8. When no element has the id \<open>results-container\<close>, \<open>displayResults\<close> returns
  without an error and leaves the document as it is, whatever \<open>data\<close> is.
\<close>

theorem displayResults_no_container:
  "d ''results-container'' = None \<Longrightarrow> displayResults data d = Inr d"
  by (simp add: displayResults_def)

theorem displayResults_no_container_witness:
  "[''analyze-button'' \<mapsto> ''Analyze''] ''results-container'' = None
   \<and> displayResults (VObj []) [''analyze-button'' \<mapsto> ''Analyze'']
       = Inr [''analyze-button'' \<mapsto> ''Analyze'']
   \<and> displayResults VUndefined [''analyze-button'' \<mapsto> ''Analyze'']
       = Inr [''analyze-button'' \<mapsto> ''Analyze'']"
  using displayResults_no_container [of "[''analyze-button'' \<mapsto> ''Analyze'']" "VObj []"]
    displayResults_no_container [of "[''analyze-button'' \<mapsto> ''Analyze'']" VUndefined]
  by simp

lemma ToString_error:
  "ToString v = Inl e \<Longrightarrow> e = TypeError"
  "ToString_elements vs = Inl e \<Longrightarrow> e = TypeError"
  by (induction v and vs arbitrary: e and e rule: ToString_ToString_elements.induct)
    (auto split: sum.splits if_splits)

lemma map_throwing_error:
  assumes "\<And>x e. f x = Inl e \<Longrightarrow> e = TypeError"
  shows "map_throwing f xs = Inl e \<Longrightarrow> e = TypeError"
  using assms by (induction xs arbitrary: e) (auto split: sum.splits)

lemma get_member_error: "get_member v name = Inl e \<Longrightarrow> e = TypeError"
  by (auto simp: get_member_def split: jsval.splits)

lemma call_map_error:
  assumes "\<And>x e. f x = Inl e \<Longrightarrow> e = TypeError"
  shows "call_map v f = Inl e \<Longrightarrow> e = TypeError"
  using map_throwing_error [of f, OF assms]
  by (auto simp: call_map_def split: jsval.splits)

lemma render_items_error: "call_map v list_item = Inl e \<Longrightarrow> e = TypeError"
proof (rule call_map_error)
  fix x e'
  assume "list_item x = Inl e'"
  then show "e' = TypeError"
    by (auto simp: list_item_def then_do_def split: sum.splits dest: ToString_error(1))
qed

lemma render_results_error: "render_results data = Inl e \<Longrightarrow> e = TypeError"
  by (auto simp: render_results_def then_do_def split: sum.splits
      dest: get_member_error ToString_error(1) render_items_error)

lemma render_missing_fra_analysis:
  "get_member data ''fra_analysis'' = Inr VUndefined \<Longrightarrow> render_results data = Inl TypeError"
  by (simp add: render_results_def then_do_def get_member_def)

lemma render_missing_recommendations:
  assumes "get_member data ''recommendations'' = Inr VUndefined"
  shows "render_results data = Inl TypeError"
proof (cases "render_results data")
  case (Inl e)
  then show ?thesis using render_results_error [of data e] by simp
next
  case (Inr html)
  then show ?thesis using assms
    by (auto simp: render_results_def then_do_def get_member_def split: sum.splits)
qed

lemma render_missing_immediate_actions:
  assumes "get_member data ''recommendations'' = Inr recommendations"
    and "get_member recommendations ''immediate_actions'' = Inr VUndefined"
  shows "render_results data = Inl TypeError"
proof (cases "render_results data")
  case (Inl e)
  then show ?thesis using render_results_error [of data e] by simp
next
  case (Inr html)
  then show ?thesis using assms
    by (auto simp: render_results_def then_do_def call_map_def split: sum.splits)
qed

lemma displayResults_throws:
  "d ''results-container'' = Some old \<Longrightarrow> render_results data = Inl e \<Longrightarrow>
   displayResults data d = Inl e"
  by (simp add: displayResults_def then_do_def)

text \<open>A leaf that is missing does not throw: it is rendered as the text \<open>undefined\<close>.\<close>

lemma render_missing_leaf:
  assumes "get_member data ''fra_analysis'' = Inr fra_analysis"
    and "get_member fra_analysis ''overall_suitability'' = Inr VUndefined"
    and "get_member fra_analysis ''total_score'' = Inr VUndefined"
    and "get_member data ''recommendations'' = Inr recommendations"
    and "get_member recommendations ''immediate_actions'' = Inr immediate_actions"
    and "call_map immediate_actions list_item = Inr items"
  shows "render_results data
   = Inr (nl @ ''            <h2>Analysis Results</h2>'' @ nl @
          ''            <p>Overall Suitability: undefined</p>'' @ nl @
          ''            <p>Total Score: undefined</p>'' @ nl @
          ''            <h3>Recommendations</h3>'' @ nl @
          ''            <ul>'' @ nl @
          ''                '' @ join [] items @ nl @
          ''            </ul>'' @ nl @
          ''        '')"
  using assms by (simp add: render_results_def then_do_def)

lemma render_missing_leaves:
  "render_results
     (VObj [(''fra_analysis'', VObj []),
            (''recommendations'', VObj [(''immediate_actions'', VArr [VStr ''Survey'', VNull])])])
   = Inr (nl @ ''            <h2>Analysis Results</h2>'' @ nl @
          ''            <p>Overall Suitability: undefined</p>'' @ nl @
          ''            <p>Total Score: undefined</p>'' @ nl @
          ''            <h3>Recommendations</h3>'' @ nl @
          ''            <ul>'' @ nl @
          ''                <li>Survey</li><li>null</li>'' @ nl @
          ''            </ul>'' @ nl @
          ''        '')"
  by (simp add: render_results_def then_do_def get_member_def call_map_def list_item_def)

subsection \<open>Errors\<close>

lemma analyzeLocation_fulfils:
  "fst (analyzeLocation fetch latitude longitude radius w) = Inr ()"
  by (simp add: analyzeLocation_def split: prod.splits sum.splits)

lemma analyzeLocation_not_ok:
  assumes "fetch (analysis_request latitude longitude radius) = Resolved r" and "\<not> ok r"
  shows "analyzeLocation fetch latitude longitude radius w =
    (Inr (),
     w\<lparr>fetched := fetched w @ [analysis_request latitude longitude radius],
       console := console w @
         [ConsoleError ''There was a problem with the fetch operation:''
            (Error (''HTTP error! status: '' @ decimal (status r)))]\<rparr>)"
  using assms by (simp add: analyzeLocation_def analyzeLocation_try_def Let_def)

lemma analyzeLocation_render_error:
  assumes "fetch (analysis_request latitude longitude radius) = Resolved r" and "ok r"
    and "json_result r = Inr analysisData" and "displayResults analysisData (dom w) = Inl e"
  shows "analyzeLocation fetch latitude longitude radius w =
    (Inr (),
     w\<lparr>fetched := fetched w @ [analysis_request latitude longitude radius],
       console := console w @
         [ConsoleLog ''API Response:'' analysisData,
          ConsoleError ''There was a problem with the fetch operation:'' e]\<rparr>)"
  using assms by (simp add: analyzeLocation_def analyzeLocation_try_def Let_def)

lemma decimal_500: "decimal 500 = ''500''"
  by code_simp

text \<open>
  C5. On a response whose status is outside 200..299, \<open>analyzeLocation\<close> throws an
  \<open>Error\<close> whose message ends in the status code, catches it itself and logs it with
  \<open>console.error\<close>. One call of \<open>fetch\<close> has been made (no retry), the document is
  unchanged, nothing else is written to the console, and the promise fulfils: the
  caller sees no error.
\<close>

theorem http_error_caught_and_logged:
  assumes "fetch (analysis_request latitude longitude radius) = Resolved r" and "\<not> ok r"
  shows "analyzeLocation fetch latitude longitude radius w =
           (Inr (),
            w\<lparr>fetched := fetched w @ [analysis_request latitude longitude radius],
              console := console w @
                [ConsoleError ''There was a problem with the fetch operation:''
                   (Error (''HTTP error! status: '' @ decimal (status r)))]\<rparr>)
         \<and> fst (analyzeLocation fetch latitude longitude radius w) = Inr ()
         \<and> dom (snd (analyzeLocation fetch latitude longitude radius w)) = dom w
         \<and> length (fetched (snd (analyzeLocation fetch latitude longitude radius w)))
             = length (fetched w) + 1"
  using assms
    analyzeLocation_not_ok [where fetch = fetch and latitude = latitude
      and longitude = longitude and radius = radius and r = r and w = w]
  by simp

theorem http_error_caught_and_logged_witness:
  "\<not> ok \<lparr>status = 500, json_result = Inl SyntaxError\<rparr>
   \<and> analyzeLocation (\<lambda>call. Resolved \<lparr>status = 500, json_result = Inl SyntaxError\<rparr>)
        ''23.3441'' ''85.3096'' ''2.0''
        \<lparr>dom = [''results-container'' \<mapsto> ''old''], console = [], fetched = []\<rparr>
     = (Inr (),
        \<lparr>dom = [''results-container'' \<mapsto> ''old''],
         console = [ConsoleError ''There was a problem with the fetch operation:''
                      (Error ''HTTP error! status: 500'')],
         fetched = [analysis_request ''23.3441'' ''85.3096'' ''2.0'']\<rparr>)"
  using http_error_caught_and_logged
    [where fetch = "\<lambda>call. Resolved \<lparr>status = 500, json_result = Inl SyntaxError\<rparr>"
       and r = "\<lparr>status = 500, json_result = Inl SyntaxError\<rparr>"
       and latitude = "''23.3441''" and longitude = "''85.3096''"
       and radius = "''2.0''"
       and w = "\<lparr>dom = [''results-container'' \<mapsto> ''old''], console = [], fetched = []\<rparr>"]
  by (simp add: ok_def decimal_500)

text \<open>
  C1, as the code has it. The call of \<open>displayResults\<close> is inside the \<open>try\<close> block.
  When the response is 2xx, the container element exists and the parsed body lacks
  \<open>fra_analysis\<close>, \<open>recommendations\<close> or \<open>recommendations.immediate_actions\<close>, the
  render step throws a TypeError. Whatever the render step throws, the \<open>catch\<close> of
  \<open>analyzeLocation\<close> catches it and logs it with \<open>console.error\<close>; the document is
  unchanged and the promise fulfils: no error reaches the caller.
\<close>

theorem render_error_is_caught:
  assumes "fetch (analysis_request latitude longitude radius) = Resolved r"
    and "ok r"
    and "json_result r = Inr analysisData"
    and "dom w ''results-container'' = Some old"
  shows "(get_member analysisData ''fra_analysis'' = Inr VUndefined
          \<or> get_member analysisData ''recommendations'' = Inr VUndefined
          \<or> (\<exists>recommendations.
                get_member analysisData ''recommendations'' = Inr recommendations
                \<and> get_member recommendations ''immediate_actions'' = Inr VUndefined)
          \<longrightarrow> displayResults analysisData (dom w) = Inl TypeError)
         \<and> (\<forall>e. displayResults analysisData (dom w) = Inl e \<longrightarrow>
               analyzeLocation fetch latitude longitude radius w =
                 (Inr (),
                  w\<lparr>fetched := fetched w @ [analysis_request latitude longitude radius],
                    console := console w @
                      [ConsoleLog ''API Response:'' analysisData,
                       ConsoleError ''There was a problem with the fetch operation:'' e]\<rparr>)
               \<and> dom (snd (analyzeLocation fetch latitude longitude radius w)) = dom w)
         \<and> fst (analyzeLocation fetch latitude longitude radius w) = Inr ()"
proof (intro conjI impI allI)
  assume "get_member analysisData ''fra_analysis'' = Inr VUndefined
          \<or> get_member analysisData ''recommendations'' = Inr VUndefined
          \<or> (\<exists>recommendations.
                get_member analysisData ''recommendations'' = Inr recommendations
                \<and> get_member recommendations ''immediate_actions'' = Inr VUndefined)"
  then have "render_results analysisData = Inl TypeError"
    using render_missing_fra_analysis [of analysisData]
      render_missing_recommendations [of analysisData]
      render_missing_immediate_actions [of analysisData]
    by blast
  then show "displayResults analysisData (dom w) = Inl TypeError"
    using assms(4) by (rule displayResults_throws [rotated])
next
  fix e
  assume thrown: "displayResults analysisData (dom w) = Inl e"
  have run: "analyzeLocation fetch latitude longitude radius w =
      (Inr (),
       w\<lparr>fetched := fetched w @ [analysis_request latitude longitude radius],
         console := console w @
           [ConsoleLog ''API Response:'' analysisData,
            ConsoleError ''There was a problem with the fetch operation:'' e]\<rparr>)"
    using thrown assms(1) assms(2) assms(3)
      analyzeLocation_render_error [where fetch = fetch and latitude = latitude
        and longitude = longitude and radius = radius and r = r and w = w
        and analysisData = analysisData and e = e]
    by simp
  show "analyzeLocation fetch latitude longitude radius w =
      (Inr (),
       w\<lparr>fetched := fetched w @ [analysis_request latitude longitude radius],
         console := console w @
           [ConsoleLog ''API Response:'' analysisData,
            ConsoleError ''There was a problem with the fetch operation:'' e]\<rparr>)"
    by (rule run)
  show "dom (snd (analyzeLocation fetch latitude longitude radius w)) = dom w"
    by (simp add: run)
next
  show "fst (analyzeLocation fetch latitude longitude radius w) = Inr ()"
    by (rule analyzeLocation_fulfils)
qed

theorem render_error_is_caught_witness:
  "ok \<lparr>status = 200, json_result = Inr (VObj [(''status'', VStr ''ok'')])\<rparr>
   \<and> get_member (VObj [(''status'', VStr ''ok'')]) ''fra_analysis'' = Inr VUndefined
   \<and> displayResults (VObj [(''status'', VStr ''ok'')]) [''results-container'' \<mapsto> ''old'']
       = Inl TypeError
   \<and> analyzeLocation
        (\<lambda>call. Resolved \<lparr>status = 200, json_result = Inr (VObj [(''status'', VStr ''ok'')])\<rparr>)
        ''23.3441'' ''85.3096'' ''2.0''
        \<lparr>dom = [''results-container'' \<mapsto> ''old''], console = [], fetched = []\<rparr>
     = (Inr (),
        \<lparr>dom = [''results-container'' \<mapsto> ''old''],
         console = [ConsoleLog ''API Response:'' (VObj [(''status'', VStr ''ok'')]),
                    ConsoleError ''There was a problem with the fetch operation:'' TypeError],
         fetched = [analysis_request ''23.3441'' ''85.3096'' ''2.0'']\<rparr>)"
  using render_error_is_caught
    [where fetch = "\<lambda>call. Resolved \<lparr>status = 200, json_result = Inr (VObj [(''status'', VStr ''ok'')])\<rparr>"
       and r = "\<lparr>status = 200, json_result = Inr (VObj [(''status'', VStr ''ok'')])\<rparr>"
       and analysisData = "VObj [(''status'', VStr ''ok'')]"
       and old = "''old''"
       and latitude = "''23.3441''" and longitude = "''85.3096''"
       and radius = "''2.0''"
       and w = "\<lparr>dom = [''results-container'' \<mapsto> ''old''], console = [], fetched = []\<rparr>"]
  by (simp add: ok_def get_member_def)

text \<open>
  The claim C1 has the render error leave \<open>analyzeLocation\<close> uncaught. On a 200
  response whose body is \<open>{}\<close>, with the container present, the render step throws,
  and yet the promise of \<open>analyzeLocation\<close> fulfils, with the error on the console.
\<close>

theorem render_error_uncaught_counterexample:
  "displayResults (VObj []) [''results-container'' \<mapsto> ''old''] = Inl TypeError
   \<and> \<not> (\<exists>e. fst (analyzeLocation
              (\<lambda>call. Resolved \<lparr>status = 200, json_result = Inr (VObj [])\<rparr>)
              ''23.3441'' ''85.3096'' ''2.0''
              \<lparr>dom = [''results-container'' \<mapsto> ''old''], console = [], fetched = []\<rparr>) = Inl e)
   \<and> console (snd (analyzeLocation
              (\<lambda>call. Resolved \<lparr>status = 200, json_result = Inr (VObj [])\<rparr>)
              ''23.3441'' ''85.3096'' ''2.0''
              \<lparr>dom = [''results-container'' \<mapsto> ''old''], console = [], fetched = []\<rparr>))
       = [ConsoleLog ''API Response:'' (VObj []),
          ConsoleError ''There was a problem with the fetch operation:'' TypeError]"
proof -
  have thrown: "displayResults (VObj []) [''results-container'' \<mapsto> ''old''] = Inl TypeError"
    by (simp add: displayResults_def then_do_def render_results_def get_member_def)
  have run: "analyzeLocation
      (\<lambda>call. Resolved \<lparr>status = 200, json_result = Inr (VObj [])\<rparr>)
      ''23.3441'' ''85.3096'' ''2.0''
      \<lparr>dom = [''results-container'' \<mapsto> ''old''], console = [], fetched = []\<rparr>
    = (Inr (),
       \<lparr>dom = [''results-container'' \<mapsto> ''old''],
        console = [ConsoleLog ''API Response:'' (VObj []),
                   ConsoleError ''There was a problem with the fetch operation:'' TypeError],
        fetched = [analysis_request ''23.3441'' ''85.3096'' ''2.0'']\<rparr>)"
    using analyzeLocation_render_error
      [where fetch = "\<lambda>call. Resolved \<lparr>status = 200, json_result = Inr (VObj [])\<rparr>"
         and r = "\<lparr>status = 200, json_result = Inr (VObj [])\<rparr>"
         and analysisData = "VObj []" and e = TypeError
         and latitude = "''23.3441''" and longitude = "''85.3096''"
         and radius = "''2.0''"
         and w = "\<lparr>dom = [''results-container'' \<mapsto> ''old''], console = [], fetched = []\<rparr>"]
      thrown
    by (simp add: ok_def)
  show ?thesis using thrown run by simp
qed

end
